theory Spec2Isabelle
  imports Main
begin

section \<open>Python values the decorators work on\<close>

subsection \<open>Exception classes and exception objects\<close>

text \<open>
  A class is its name together with its base classes. \<open>issubclass\<close> walks the bases,
  as Python's \<^verbatim>\<open>issubclass\<close> walks the method resolution order.
\<close>

datatype cls = Cls (cls_name: string) (cls_bases: "cls list")

fun issubclass :: "cls \<Rightarrow> cls \<Rightarrow> bool" where
  "issubclass (Cls n bs) k = (Cls n bs = k \<or> list_ex (\<lambda>b. issubclass b k) bs)"

text \<open>The part of the builtin hierarchy that the module and its callers meet.\<close>

definition object_cls :: cls where
  "object_cls = Cls ''object'' []"

definition BaseException :: cls where
  "BaseException = Cls ''BaseException'' [object_cls]"

definition Exception :: cls where
  "Exception = Cls ''Exception'' [BaseException]"

definition KeyboardInterrupt :: cls where
  "KeyboardInterrupt = Cls ''KeyboardInterrupt'' [BaseException]"

definition SystemExit :: cls where
  "SystemExit = Cls ''SystemExit'' [BaseException]"

definition ValueError :: cls where
  "ValueError = Cls ''ValueError'' [Exception]"

definition LookupError :: cls where
  "LookupError = Cls ''LookupError'' [Exception]"

definition KeyError :: cls where
  "KeyError = Cls ''KeyError'' [LookupError]"

definition OSError :: cls where
  "OSError = Cls ''OSError'' [Exception]"

definition TimeoutError :: cls where
  "TimeoutError = Cls ''TimeoutError'' [OSError]"

text \<open>
  Modelled from the spec: \<^verbatim>\<open>baleen.exceptions\<close> is imported by the module but is not
  among the sources. The spec names a base error kind of the application and a
  timeout-specific error kind, both members of the application error taxonomy, the second
  distinguishable from the first.
\<close>

definition BaleenError :: cls where
  "BaleenError = Cls ''BaleenError'' [Exception]"

definition BaleenTimeout :: cls where
  "BaleenTimeout = Cls ''BaleenTimeout'' [BaleenError]"

text \<open>
  An exception object: its class, its string form (what \<^verbatim>\<open>str(e)\<close> gives, which for
  an exception built from one message is that message) and the \<^verbatim>\<open>original\<close>
  attribute, absent until it is assigned. Two objects are the same object when they are
  equal as values.
\<close>

datatype exn = Exn (exn_cls: cls) (exn_str: string) (original: "exn option")

text \<open>\<^verbatim>\<open>klass(msg)\<close>: a new exception of class \<open>klass\<close> built from one message.\<close>

definition new_exn :: "cls \<Rightarrow> string \<Rightarrow> exn" where
  "new_exn klass msg = Exn klass msg None"

text \<open>\<^verbatim>\<open>error.original = e\<close>\<close>

definition set_original :: "exn \<Rightarrow> exn \<Rightarrow> exn" where
  "set_original error e = Exn (exn_cls error) (exn_str error) (Some e)"

text \<open>
  The second argument of \<^verbatim>\<open>isinstance\<close> and the operand of \<^verbatim>\<open>except\<close>: one class
  or a tuple of classes.
\<close>

datatype classinfo = Class cls | Tuple "cls list"

fun isinstance :: "exn \<Rightarrow> classinfo \<Rightarrow> bool" where
  "isinstance e (Class k) = issubclass (exn_cls e) k"
| "isinstance e (Tuple ks) = list_ex (issubclass (exn_cls e)) ks"

text \<open>
  \<^verbatim>\<open>message or str(e)\<close>: Python's \<^verbatim>\<open>or\<close> gives its left operand when that is truthy
  and its right operand otherwise; \<^verbatim>\<open>None\<close> and the empty string are falsy.
\<close>

fun truthy :: "string option \<Rightarrow> bool" where
  "truthy None = False"
| "truthy (Some m) = (m \<noteq> [])"

definition message_or :: "string option \<Rightarrow> string \<Rightarrow> string" where
  "message_or message alt = (if truthy message then the message else alt)"

subsection \<open>Outcomes, the process state, callables\<close>

datatype 'v outcome = Return 'v | Raise exn

text \<open>
  A signal handler is \<^verbatim>\<open>SIG_DFL\<close>, \<^verbatim>\<open>SIG_IGN\<close> or a Python function of the signal
  number and the interrupted frame. The frame carries nothing the module reads.
\<close>

type_synonym frame = unit

datatype handler = SIG_DFL | SIG_IGN | Py_handler "nat \<Rightarrow> frame \<Rightarrow> unit outcome"

text \<open>
  The process-wide state the decorators touch: the wall clock (in seconds), the installed
  signal handlers by signal number, and the one pending alarm of the process (the seconds
  left until \<^verbatim>\<open>SIGALRM\<close> is delivered; \<open>None\<close> when no alarm is armed).
\<close>

record world =
  clock :: int
  handlers :: "nat \<Rightarrow> handler"
  pending_alarm :: "nat option"

text \<open>
  A callable takes its arguments and the state of the process; it returns a value or
  raises, and leaves a new state. \<open>None\<close> stands for a call that never gives control
  back.
\<close>

type_synonym ('a, 'v) callable = "'a \<Rightarrow> world \<Rightarrow> ('v outcome \<times> world) option"

section \<open>Exception handling: \<^verbatim>\<open>reraise\<close>\<close>

text \<open>
  \<^verbatim>\<open>
  try:
      return func(*args, **kwargs)
  except trap as e:
      if isinstance(e, ignore):
          raise
      error = klass(message or str(e))
      error.original = e
      raise error
  \<close>
\<close>

definition reraise_wrapper ::
  "cls \<Rightarrow> string option \<Rightarrow> classinfo \<Rightarrow> classinfo \<Rightarrow> ('a, 'v) callable \<Rightarrow> ('a, 'v) callable"
where
  "reraise_wrapper klass message trap ignore func args w =
     (case func args w of
        None \<Rightarrow> None
      | Some (Return v, w') \<Rightarrow> Some (Return v, w')
      | Some (Raise e, w') \<Rightarrow>
          if isinstance e trap then
            if isinstance e ignore then Some (Raise e, w')
            else Some (Raise (set_original (new_exn klass (message_or message (exn_str e))) e), w')
          else Some (Raise e, w'))"

text \<open>The defaults of \<^verbatim>\<open>reraise(klass=BaleenError, message=None, trap=Exception, ignore=())\<close>.\<close>

definition default_klass :: cls where
  "default_klass = BaleenError"

definition default_message :: "string option" where
  "default_message = None"

definition default_trap :: classinfo where
  "default_trap = Class Exception"

definition default_ignore :: classinfo where
  "default_ignore = Tuple []"

section \<open>Signals and the deadline: \<^verbatim>\<open>timeout\<close>\<close>

subsection \<open>The \<^verbatim>\<open>signal\<close> module\<close>

definition SIGALRM :: nat where
  "SIGALRM = 14"

text \<open>\<^verbatim>\<open>signal.signal(signum, handler)\<close> installs the handler and returns the previous one.\<close>

definition signal_signal :: "nat \<Rightarrow> handler \<Rightarrow> world \<Rightarrow> handler \<times> world" where
  "signal_signal signum h w = (handlers w signum, w\<lparr>handlers := (handlers w)(signum := h)\<rparr>)"

text \<open>
  \<^verbatim>\<open>signal.alarm(seconds)\<close> replaces the pending alarm and returns the seconds that were
  left on the previous one (0 when there was none). With 0 seconds no new alarm is
  scheduled, so the pending one is only cancelled.
\<close>

definition signal_alarm :: "nat \<Rightarrow> world \<Rightarrow> nat \<times> world" where
  "signal_alarm seconds w =
     ((case pending_alarm w of None \<Rightarrow> 0 | Some left \<Rightarrow> left),
      w\<lparr>pending_alarm := (if seconds = 0 then None else Some seconds)\<rparr>)"

subsection \<open>Computations that take time\<close>

text \<open>
  What a computation does when nothing disturbs it: it runs for a number of seconds and
  then returns or raises, or it runs forever.
\<close>

datatype 'v behaviour = Finishes nat "'v outcome" | Forever

text \<open>
  The pending alarm becomes due. The alarm is one-shot, so nothing is pending afterwards.
  The default action of \<^verbatim>\<open>SIGALRM\<close> terminates the process (\<open>None\<close>: control never
  comes back); an ignored signal and a handler that returns let the computation go on;
  an exception raised by a Python handler is raised in the interrupted computation.
\<close>

definition deliver_alarm :: "world \<Rightarrow> (exn option \<times> world) option" where
  "deliver_alarm w =
     (let w' = w\<lparr>pending_alarm := None\<rparr> in
      case handlers w SIGALRM of
        SIG_DFL \<Rightarrow> None
      | SIG_IGN \<Rightarrow> Some (None, w')
      | Py_handler h \<Rightarrow>
          (case h SIGALRM () of
             Return _ \<Rightarrow> Some (None, w')
           | Raise e \<Rightarrow> Some (Some e, w')))"

text \<open>
  A computation running in the process. Without a pending alarm it runs undisturbed. An
  alarm with \<open>s\<close> seconds left is delivered once \<open>s\<close> seconds have passed, unless the
  computation has finished before; an exception raised by the handler ends the
  computation, which does not catch it.
\<close>

fun run :: "'v behaviour \<Rightarrow> world \<Rightarrow> ('v outcome \<times> world) option" where
  "run (Finishes d out) w =
     (case pending_alarm w of
        None \<Rightarrow> Some (out, w\<lparr>clock := clock w + int d\<rparr>)
      | Some s \<Rightarrow>
          if d < s then Some (out, w\<lparr>clock := clock w + int d, pending_alarm := Some (s - d)\<rparr>)
          else (case deliver_alarm (w\<lparr>clock := clock w + int s\<rparr>) of
                  None \<Rightarrow> None
                | Some (Some e, w') \<Rightarrow> Some (Raise e, w')
                | Some (None, w') \<Rightarrow> Some (out, w'\<lparr>clock := clock w + int d\<rparr>)))"
| "run Forever w =
     (case pending_alarm w of
        None \<Rightarrow> None
      | Some s \<Rightarrow>
          (case deliver_alarm (w\<lparr>clock := clock w + int s\<rparr>) of
             None \<Rightarrow> None
           | Some (Some e, w') \<Rightarrow> Some (Raise e, w')
           | Some (None, w') \<Rightarrow> None))"

text \<open>The callable that does what the behaviour says for its arguments.\<close>

definition performs :: "('a \<Rightarrow> 'v behaviour) \<Rightarrow> ('a, 'v) callable" where
  "performs beh args w = run (beh args) w"

subsection \<open>The decorator\<close>

text \<open>\<^verbatim>\<open>str\<close> of a non-negative integer, as \<^verbatim>\<open>'{}'.format(seconds)\<close> prints it.\<close>

definition digit_char :: "nat \<Rightarrow> char" where
  "digit_char d = ''0123456789'' ! d"

fun str_nat :: "nat \<Rightarrow> string" where
  "str_nat n = (if n < 10 then [digit_char n]
                else str_nat (n div 10) @ [digit_char (n mod 10)])"

declare str_nat.simps [simp del]

text \<open>
  \<^verbatim>\<open>
  def _timeout_error(signal, frame):
      raise TimeoutError("Operation did not finish within \
      {} seconds".format(seconds))
  \<close>
  The module imports only \<^verbatim>\<open>BaleenError\<close> and \<^verbatim>\<open>BaleenTimeout\<close> from
  \<^verbatim>\<open>baleen.exceptions\<close>, so the name \<^verbatim>\<open>TimeoutError\<close> is the builtin class. The
  backslash continues the string literal on the next line, whose eight leading blanks
  are part of the message.
\<close>

definition timeout_error :: "nat \<Rightarrow> nat \<Rightarrow> frame \<Rightarrow> unit outcome" where
  "timeout_error seconds signum frame =
     Raise (new_exn TimeoutError
       (''Operation did not finish within         '' @ str_nat seconds @ '' seconds''))"

text \<open>
  \<^verbatim>\<open>
  signal.signal(signal.SIGALRM, _timeout_error)
  signal.alarm(seconds)
  try:
      return func(*args, **kwargs)
  finally:
      signal.alarm(0)
  \<close>
\<close>

definition timeout_wrapper :: "nat \<Rightarrow> ('a, 'v) callable \<Rightarrow> ('a, 'v) callable" where
  "timeout_wrapper seconds func args w =
     (let w1 = snd (signal_signal SIGALRM (Py_handler (timeout_error seconds)) w);
          w2 = snd (signal_alarm seconds w1)
      in case func args w2 of
           None \<Rightarrow> None
         | Some (out, w3) \<Rightarrow> Some (out, snd (signal_alarm 0 w3)))"

section \<open>Timing: \<^verbatim>\<open>timeit\<close>\<close>

text \<open>
  Modelled from the spec: \<^verbatim>\<open>baleen.utils.timez.Timer\<close> is imported by the module but
  is not among the sources. The spec describes a scoped stopwatch with "start", "stop"
  and read access to the elapsed wall-clock duration, released on every exit path.
\<close>

record timer =
  started :: int
  finished :: int
  elapsed :: int

definition Timer :: timer where
  "Timer = \<lparr>started = 0, finished = 0, elapsed = 0\<rparr>"

definition timer_enter :: "timer \<Rightarrow> world \<Rightarrow> timer" where
  "timer_enter t w = t\<lparr>started := clock w\<rparr>"

definition timer_exit :: "timer \<Rightarrow> world \<Rightarrow> timer" where
  "timer_exit t w = t\<lparr>finished := clock w, elapsed := clock w - started t\<rparr>"

text \<open>
  \<^verbatim>\<open>
  with Timer() as timer:
      result = func(*args, **kwargs)
  return result, timer
  \<close>
  The timer is stopped when the block is left, by a return or by an exception; the
  exception then goes on to the caller.
\<close>

definition timer_wrapper :: "('a, 'v) callable \<Rightarrow> ('a, 'v \<times> timer) callable" where
  "timer_wrapper func args w =
     (let timer = timer_enter Timer w in
      case func args w of
        None \<Rightarrow> None
      | Some (out, w') \<Rightarrow>
          (let timer' = timer_exit timer w' in
           case out of
             Return result \<Rightarrow> Some (Return (result, timer'), w')
           | Raise e \<Rightarrow> Some (Raise e, w')))"

section \<open>Memoization: \<^verbatim>\<open>memoized\<close>\<close>

text \<open>
  The owning instance: its attributes by name, and a count of how often the getter has
  been invoked on it. The count is not an attribute; it is kept to state how often the
  computation runs.
\<close>

record 'v obj =
  attrs :: "string \<rightharpoonup> 'v"
  fget_calls :: nat

text \<open>
  The getter reads the attributes of the instance and may assign them; it returns a value
  or raises, or never returns (\<open>None\<close>).
\<close>

type_synonym 'v getter = "(string \<rightharpoonup> 'v) \<Rightarrow> ('v outcome \<times> (string \<rightharpoonup> 'v)) option"

definition AttributeError :: cls where
  "AttributeError = Cls ''AttributeError'' [Exception]"

definition hasattr :: "'v obj \<Rightarrow> string \<Rightarrow> bool" where
  "hasattr self name = (attrs self name \<noteq> None)"

definition setattr :: "'v obj \<Rightarrow> string \<Rightarrow> 'v \<Rightarrow> 'v obj" where
  "setattr self name v = self\<lparr>attrs := (attrs self)(name \<mapsto> v)\<rparr>"

definition getattr :: "'v obj \<Rightarrow> string \<Rightarrow> 'v outcome" where
  "getattr self name =
     (case attrs self name of
        Some v \<Rightarrow> Return v
      | None \<Rightarrow> Raise (new_exn AttributeError name))"

definition delattr :: "'v obj \<Rightarrow> string \<Rightarrow> 'v obj" where
  "delattr self name = self\<lparr>attrs := (attrs self)(name := None)\<rparr>"

text \<open>\<^verbatim>\<open>fget(self)\<close>, counted.\<close>

definition invoke :: "'v getter \<Rightarrow> 'v obj \<Rightarrow> ('v outcome \<times> 'v obj) option" where
  "invoke fget self =
     (case fget (attrs self) of
        None \<Rightarrow> None
      | Some (out, a) \<Rightarrow> Some (out, \<lparr>attrs = a, fget_calls = Suc (fget_calls self)\<rparr>))"

text \<open>\<^verbatim>\<open>attr_name = '_{0}'.format(fget.__name__)\<close>\<close>

definition attr_name :: "string \<Rightarrow> string" where
  "attr_name fget_name = ''_'' @ fget_name"

text \<open>
  \<^verbatim>\<open>
  def fget_memoized(self):
      if not hasattr(self, attr_name):
          setattr(self, attr_name, fget(self))
      return getattr(self, attr_name)
  \<close>
\<close>

definition fget_memoized :: "string \<Rightarrow> 'v getter \<Rightarrow> 'v obj \<Rightarrow> ('v outcome \<times> 'v obj) option" where
  "fget_memoized fget_name fget self =
     (if \<not> hasattr self (attr_name fget_name) then
        (case invoke fget self of
           None \<Rightarrow> None
         | Some (Raise e, self') \<Rightarrow> Some (Raise e, self')
         | Some (Return v, self') \<Rightarrow>
             (let self'' = setattr self' (attr_name fget_name) v
              in Some (getattr self'' (attr_name fget_name), self'')))
      else Some (getattr self (attr_name fget_name), self))"

text \<open>A number of reads of the accessor on the instance, one after the other.\<close>

fun reads :: "nat \<Rightarrow> string \<Rightarrow> 'v getter \<Rightarrow> 'v obj \<Rightarrow> ('v outcome list \<times> 'v obj) option" where
  "reads 0 fget_name fget self = Some ([], self)"
| "reads (Suc k) fget_name fget self =
     (case fget_memoized fget_name fget self of
        None \<Rightarrow> None
      | Some (out, self') \<Rightarrow>
          (case reads k fget_name fget self' of
             None \<Rightarrow> None
           | Some (outs, self'') \<Rightarrow> Some (out # outs, self'')))"

section \<open>Concrete processes, callables and instances\<close>

definition world0 :: world where
  "world0 = \<lparr>clock = 0, handlers = (\<lambda>_. SIG_DFL), pending_alarm = None\<rparr>"

definition raises :: "exn \<Rightarrow> (unit, unit) callable" where
  "raises e args w = Some (Raise e, w)"

fun raised :: "('v outcome \<times> world) option \<Rightarrow> exn option" where
  "raised (Some (Raise e, w)) = Some e"
| "raised _ = None"

text \<open>A process in which \<^verbatim>\<open>SIGALRM\<close> was set to be ignored before any decorator ran.\<close>

definition world_ign :: world where
  "world_ign = \<lparr>clock = 0, handlers = (\<lambda>_. SIG_IGN), pending_alarm = None\<rparr>"

text \<open>\<^verbatim>\<open>time.sleep(d); return d\<close>\<close>

definition sleeps :: "nat \<Rightarrow> (unit, nat) callable" where
  "sleeps d = performs (\<lambda>_. Finishes d (Return d))"

text \<open>\<^verbatim>\<open>time.sleep(d); raise e\<close>\<close>

definition sleeps_then_raises :: "nat \<Rightarrow> exn \<Rightarrow> (unit, nat) callable" where
  "sleeps_then_raises d e = performs (\<lambda>_. Finishes d (Raise e))"

text \<open>An instance without attributes, on which no getter has run.\<close>

definition obj0 :: "nat obj" where
  "obj0 = \<lparr>attrs = Map.empty, fget_calls = 0\<rparr>"

text \<open>A getter that returns 42.\<close>

definition answer :: "nat getter" where
  "answer a = Some (Return 42, a)"

text \<open>
  A getter that fails the first time it runs on an instance, notes the attempt in the
  attribute \<^verbatim>\<open>tries\<close>, and returns 42 from then on.
\<close>

definition flaky :: "nat getter" where
  "flaky a = (case a ''tries'' of
                None \<Rightarrow> Some (Raise (Exn ValueError ''first'' None), a(''tries'' \<mapsto> 1))
              | Some k \<Rightarrow> Some (Return 42, a))"

section \<open>Properties\<close>

subsection \<open>Auxiliary facts\<close>

lemma str_nat_digit: "n < 10 \<Longrightarrow> str_nat n = [digit_char n]"
  by (simp add: str_nat.simps)

lemma run_keeps_handlers: "run beh u = Some (r, u') \<Longrightarrow> handlers u' = handlers u"
  by (cases beh)
     (auto simp: deliver_alarm_def Let_def
           split: option.splits if_splits handler.splits outcome.splits)

lemma armed_fires:
  assumes "0 < seconds" and "seconds \<le> d"
  shows "run (Finishes d out)
           (snd (signal_alarm seconds (snd (signal_signal SIGALRM (Py_handler (timeout_error seconds)) w))))
         = Some (Raise (Exn TimeoutError
                    (''Operation did not finish within         '' @ str_nat seconds @ '' seconds'') None),
                 w\<lparr>clock := clock w + int seconds,
                   handlers := (handlers w)(SIGALRM := Py_handler (timeout_error seconds)),
                   pending_alarm := None\<rparr>)"
  using assms
  by (simp add: signal_alarm_def signal_signal_def deliver_alarm_def timeout_error_def new_exn_def)

lemma timeout_wrapper_deadline:
  assumes "0 < seconds" and "seconds \<le> d" and "beh args = Finishes d out"
  shows "timeout_wrapper seconds (performs beh) args w
         = Some (Raise (Exn TimeoutError
                    (''Operation did not finish within         '' @ str_nat seconds @ '' seconds'') None),
                 w\<lparr>clock := clock w + int seconds,
                   handlers := (handlers w)(SIGALRM := Py_handler (timeout_error seconds)),
                   pending_alarm := None\<rparr>)"
  using assms armed_fires [OF assms(1,2), of out w]
  by (simp add: timeout_wrapper_def performs_def Let_def signal_alarm_def)

lemma timeout_wrapper_in_time:
  assumes "d < seconds" and "beh args = Finishes d out"
  shows "timeout_wrapper seconds (performs beh) args w
         = Some (out,
                 w\<lparr>clock := clock w + int d,
                   handlers := (handlers w)(SIGALRM := Py_handler (timeout_error seconds)),
                   pending_alarm := None\<rparr>)"
  using assms
  by (simp add: timeout_wrapper_def performs_def Let_def signal_alarm_def signal_signal_def)

lemma timeout_wrapper_forever:
  assumes "0 < seconds" and "beh args = Forever"
  shows "timeout_wrapper seconds (performs beh) args w
         = Some (Raise (Exn TimeoutError
                    (''Operation did not finish within         '' @ str_nat seconds @ '' seconds'') None),
                 w\<lparr>clock := clock w + int seconds,
                   handlers := (handlers w)(SIGALRM := Py_handler (timeout_error seconds)),
                   pending_alarm := None\<rparr>)"
  using assms
  by (simp add: timeout_wrapper_def performs_def Let_def signal_alarm_def signal_signal_def
      deliver_alarm_def timeout_error_def new_exn_def)

lemma fget_memoized_cached:
  "attrs self (attr_name n) = Some v \<Longrightarrow> fget_memoized n fget self = Some (Return v, self)"
  by (simp add: fget_memoized_def hasattr_def getattr_def)

lemma fget_memoized_stores:
  assumes "fget_memoized n fget self = Some (Return v, self1)"
  shows "attrs self1 (attr_name n) = Some v"
proof (cases "hasattr self (attr_name n)")
  case True
  with assms show ?thesis
    by (auto simp: fget_memoized_def hasattr_def getattr_def split: option.splits)
next
  case False
  with assms show ?thesis
    by (auto simp: fget_memoized_def setattr_def getattr_def Let_def
        split: option.splits outcome.splits)
qed

lemma reads_cached:
  "attrs self (attr_name n) = Some v \<Longrightarrow>
   reads k n fget self = Some (replicate k (Return v), self)"
  by (induction k) (simp_all add: fget_memoized_cached)

lemma fget_memoized_counts:
  assumes "fget_memoized n fget self = Some (out, self1)" and "\<not> hasattr self (attr_name n)"
  shows "fget_calls self1 = Suc (fget_calls self)"
  using assms
  by (auto simp: fget_memoized_def invoke_def setattr_def Let_def
      split: option.splits outcome.splits)

subsection \<open>The deadline\<close>

text \<open>
  C1. When the deadline fires before the callable returns, the claim expects a failure of
  the application's timeout-specific kind, with a message that names the limit. The code
  does name the limit, but what \<^verbatim>\<open>_timeout_error\<close> raises is the builtin
  \<^verbatim>\<open>TimeoutError\<close>: with a limit of 1 second and a callable that sleeps 2 seconds, the
  wrapper raises an exception that is neither a \<^verbatim>\<open>BaleenTimeout\<close> nor a
  \<^verbatim>\<open>BaleenError\<close>.
\<close>

theorem timeout_raises_builtin_kind:
  "map_option fst (timeout_wrapper 1 (sleeps 2) () world0)
     = Some (Raise (Exn TimeoutError ''Operation did not finish within         1 seconds'' None))
   \<and> \<not> isinstance (Exn TimeoutError ''Operation did not finish within         1 seconds'' None)
         (Class BaleenTimeout)
   \<and> \<not> isinstance (Exn TimeoutError ''Operation did not finish within         1 seconds'' None)
         (Class BaleenError)"
  by (simp add: timeout_wrapper_def sleeps_def performs_def world0_def signal_signal_def
      signal_alarm_def deliver_alarm_def timeout_error_def new_exn_def str_nat_digit
      digit_char_def TimeoutError_def OSError_def Exception_def BaseException_def
      object_cls_def BaleenTimeout_def BaleenError_def)

text \<open>
  C2. Whatever the callable does, and however the call ends (the callable returns, the
  callable raises, or the alarm fires and its handler raises), no alarm is pending once
  the wrapper gives control back.
\<close>

theorem timeout_disarms:
  "timeout_wrapper seconds func args w = Some (out, w') \<Longrightarrow> pending_alarm w' = None"
  by (auto simp: timeout_wrapper_def signal_alarm_def Let_def split: option.splits)

theorem timeout_disarms_witness:
  "timeout_wrapper 1 (sleeps 2) () world0
     = Some (Raise (Exn TimeoutError ''Operation did not finish within         1 seconds'' None),
             \<lparr>clock = 1, handlers = (handlers world0)(SIGALRM := Py_handler (timeout_error 1)),
              pending_alarm = None\<rparr>)
   \<and> pending_alarm \<lparr>clock = 1,
        handlers = (handlers world0)(SIGALRM := Py_handler (timeout_error 1)),
        pending_alarm = None\<rparr> = None"
proof -
  have a: "timeout_wrapper 1 (sleeps 2) () world0
     = Some (Raise (Exn TimeoutError ''Operation did not finish within         1 seconds'' None),
             \<lparr>clock = 1, handlers = (handlers world0)(SIGALRM := Py_handler (timeout_error 1)),
              pending_alarm = None\<rparr>)"
    by (simp add: timeout_wrapper_def sleeps_def performs_def world0_def signal_signal_def
        signal_alarm_def deliver_alarm_def timeout_error_def new_exn_def str_nat_digit
        digit_char_def)
  from timeout_disarms [OF a] a show ?thesis by simp
qed

text \<open>The two other ways out: the callable returns in time, and the callable raises in time.\<close>

lemma timeout_return_in_time:
  "timeout_wrapper 3 (sleeps 2) () world0
     = Some (Return 2,
             \<lparr>clock = 2, handlers = (handlers world0)(SIGALRM := Py_handler (timeout_error 3)),
              pending_alarm = None\<rparr>)"
  by (simp add: timeout_wrapper_def sleeps_def performs_def world0_def signal_signal_def
      signal_alarm_def)

lemma timeout_raise_in_time:
  "timeout_wrapper 3 (sleeps_then_raises 2 (Exn ValueError ''boom'' None)) () world0
     = Some (Raise (Exn ValueError ''boom'' None),
             \<lparr>clock = 2, handlers = (handlers world0)(SIGALRM := Py_handler (timeout_error 3)),
              pending_alarm = None\<rparr>)"
  by (simp add: timeout_wrapper_def sleeps_then_raises_def performs_def world0_def
      signal_signal_def signal_alarm_def)

text \<open>
  C9. The callable runs with the module's handler installed for \<^verbatim>\<open>SIGALRM\<close>, and all the
  wrapper does once the callable is done is clear the pending alarm. So when the callable
  itself leaves the handler alone, the module's handler is still installed after the call,
  whichever handler was installed before it.
\<close>

theorem timeout_handler_stays:
  assumes "timeout_wrapper seconds func args w = Some (out, w')"
  shows "(\<exists>u u'. handlers u SIGALRM = Py_handler (timeout_error seconds)
            \<and> func args u = Some (out, u') \<and> w' = u'\<lparr>pending_alarm := None\<rparr>)
         \<and> ((\<forall>u r u'. func args u = Some (r, u') \<longrightarrow> handlers u' SIGALRM = handlers u SIGALRM)
             \<longrightarrow> handlers w' SIGALRM = Py_handler (timeout_error seconds))"
proof -
  let ?w2 = "snd (signal_alarm seconds
                (snd (signal_signal SIGALRM (Py_handler (timeout_error seconds)) w)))"
  from assms obtain w3 where f: "func args ?w2 = Some (out, w3)"
    and w': "w' = snd (signal_alarm 0 w3)"
    by (auto simp: timeout_wrapper_def Let_def split: option.splits)
  have h: "handlers ?w2 SIGALRM = Py_handler (timeout_error seconds)"
    by (simp add: signal_alarm_def signal_signal_def)
  have e: "w' = w3\<lparr>pending_alarm := None\<rparr>"
    using w' by (simp add: signal_alarm_def)
  from f h e show ?thesis by auto
qed

theorem timeout_handler_stays_witness:
  "timeout_wrapper 3 (sleeps 2) () world_ign
     = Some (Return 2,
             \<lparr>clock = 2, handlers = (handlers world_ign)(SIGALRM := Py_handler (timeout_error 3)),
              pending_alarm = None\<rparr>)
   \<and> handlers world_ign SIGALRM = SIG_IGN
   \<and> handlers \<lparr>clock = 2,
        handlers = (handlers world_ign)(SIGALRM := Py_handler (timeout_error 3)),
        pending_alarm = None\<rparr> SIGALRM = Py_handler (timeout_error 3)"
proof -
  let ?w' = "\<lparr>clock = 2, handlers = (handlers world_ign)(SIGALRM := Py_handler (timeout_error 3)),
              pending_alarm = None\<rparr>"
  have a: "timeout_wrapper 3 (sleeps 2) () world_ign = Some (Return 2, ?w')"
    by (simp add: timeout_wrapper_def sleeps_def performs_def world_ign_def signal_signal_def
        signal_alarm_def)
  have b: "\<forall>u r u'. sleeps 2 () u = Some (r, u') \<longrightarrow> handlers u' SIGALRM = handlers u SIGALRM"
    unfolding sleeps_def performs_def by (metis run_keeps_handlers)
  have c: "handlers world_ign SIGALRM = SIG_IGN"
    by (simp add: world_ign_def)
  from timeout_handler_stays [OF a] b have "handlers ?w' SIGALRM = Py_handler (timeout_error 3)"
    by blast
  with a c show ?thesis by simp
qed

subsection \<open>Translating exceptions\<close>

text \<open>
  C3 as stated fails: an override message that is the empty string is falsy, so
  \<^verbatim>\<open>message or str(e)\<close> takes the string form of the original exception. With the override
  \<^verbatim>\<open>''\<close> and a trapped \<^verbatim>\<open>ValueError('boom')\<close> the new error says \<^verbatim>\<open>boom\<close>.
\<close>

theorem reraise_empty_message_counterexample:
  "isinstance (Exn ValueError ''boom'' None) (Class ValueError)
   \<and> \<not> isinstance (Exn ValueError ''boom'' None) (Tuple [])
   \<and> map_option exn_str (raised (reraise_wrapper BaleenError (Some '''') (Class ValueError) (Tuple [])
         (raises (Exn ValueError ''boom'' None)) () world0)) = Some ''boom''
   \<and> ''boom'' \<noteq> ''''"
  by (simp add: reraise_wrapper_def raises_def ValueError_def set_original_def new_exn_def
      message_or_def)

text \<open>
  C3, amended. An exception of the callable that is an instance of the trap set and not of
  the ignore set is replaced by a new error of class \<open>klass\<close>. Its message is the
  override message when one was supplied and is not empty, and the string form of the
  original exception otherwise. Its \<^verbatim>\<open>original\<close> attribute is the original exception.
\<close>

theorem reraise_translates:
  assumes "func args w = Some (Raise e, w')"
    and "isinstance e trap" and "\<not> isinstance e ignore"
  shows "\<exists>err. reraise_wrapper klass message trap ignore func args w = Some (Raise err, w')
           \<and> exn_cls err = klass
           \<and> exn_str err = (case message of None \<Rightarrow> exn_str e
                              | Some m \<Rightarrow> if m = [] then exn_str e else m)
           \<and> original err = Some e"
  using assms
  by (cases message)
     (simp_all add: reraise_wrapper_def set_original_def new_exn_def message_or_def)

theorem reraise_translates_witness:
  "raises (Exn ValueError ''boom'' None) () world0
     = Some (Raise (Exn ValueError ''boom'' None), world0)
   \<and> isinstance (Exn ValueError ''boom'' None) (Class ValueError)
   \<and> \<not> isinstance (Exn ValueError ''boom'' None) (Tuple [])
   \<and> (\<exists>err. reraise_wrapper BaleenError (Some ''failed'') (Class ValueError) (Tuple [])
                (raises (Exn ValueError ''boom'' None)) () world0
          = Some (Raise err, world0)
        \<and> exn_cls err = BaleenError \<and> exn_str err = ''failed''
        \<and> original err = Some (Exn ValueError ''boom'' None))"
proof -
  let ?e = "Exn ValueError ''boom'' None"
  have a: "raises ?e () world0 = Some (Raise ?e, world0)" by (simp add: raises_def)
  have b: "isinstance ?e (Class ValueError)" by (simp add: ValueError_def)
  have c: "\<not> isinstance ?e (Tuple [])" by simp
  from reraise_translates [where func = "raises ?e" and args = "()" and w = world0
      and w' = world0 and e = ?e and trap = "Class ValueError" and ignore = "Tuple []"
      and klass = BaleenError and message = "Some ''failed''"] a b c
  show ?thesis by simp
qed

text \<open>
  C4. An exception of the callable that is an instance of the ignore set reaches the
  caller as it is, whatever the trap set: when the trap set matches too, the handler
  re-raises it, and when it does not, no handler runs.
\<close>

theorem reraise_ignored_unchanged:
  assumes "func args w = Some (Raise e, w')" and "isinstance e ignore"
  shows "reraise_wrapper klass message trap ignore func args w = Some (Raise e, w')"
  using assms by (simp add: reraise_wrapper_def)

theorem reraise_ignored_unchanged_witness:
  "raises (Exn KeyError ''k'' None) () world0 = Some (Raise (Exn KeyError ''k'' None), world0)
   \<and> isinstance (Exn KeyError ''k'' None) (Tuple [KeyError])
   \<and> isinstance (Exn KeyError ''k'' None) (Class Exception)
   \<and> reraise_wrapper BaleenError None (Class Exception) (Tuple [KeyError])
        (raises (Exn KeyError ''k'' None)) () world0
       = Some (Raise (Exn KeyError ''k'' None), world0)"
proof -
  let ?e = "Exn KeyError ''k'' None"
  have a: "raises ?e () world0 = Some (Raise ?e, world0)" by (simp add: raises_def)
  have b: "isinstance ?e (Tuple [KeyError])" by (simp add: KeyError_def)
  have c: "isinstance ?e (Class Exception)"
    by (simp add: KeyError_def LookupError_def Exception_def)
  from reraise_ignored_unchanged [where func = "raises ?e" and args = "()" and w = world0
      and w' = world0 and e = ?e and ignore = "Tuple [KeyError]" and klass = BaleenError
      and message = None and trap = "Class Exception"] a b c
  show ?thesis by simp
qed

text \<open>
  C5 as stated fails in its second half: the default trap set is the class
  \<^verbatim>\<open>Exception\<close>, and \<^verbatim>\<open>KeyboardInterrupt\<close> derives from \<^verbatim>\<open>BaseException\<close> only. With
  every parameter at its default, a \<^verbatim>\<open>KeyboardInterrupt\<close> of the callable is not trapped
  and reaches the caller as it is.
\<close>

theorem reraise_default_trap_counterexample:
  "\<not> isinstance (Exn KeyboardInterrupt '''' None) default_trap
   \<and> reraise_wrapper default_klass default_message default_trap default_ignore
        (raises (Exn KeyboardInterrupt '''' None)) () world0
       = Some (Raise (Exn KeyboardInterrupt '''' None), world0)"
  by (simp add: reraise_wrapper_def raises_def default_trap_def KeyboardInterrupt_def
      Exception_def BaseException_def object_cls_def)

text \<open>
  C5, amended. An exception of the callable that is an instance of neither the trap set
  nor the ignore set reaches the caller as it is. With every parameter at its default,
  every exception of the callable whose class derives from \<^verbatim>\<open>Exception\<close> is trapped: it
  is replaced by a \<^verbatim>\<open>BaleenError\<close> that carries its string form and the exception itself.
\<close>

theorem reraise_untrapped_unchanged:
  "(func args w = Some (Raise e, w') \<and> \<not> isinstance e trap \<and> \<not> isinstance e ignore
      \<longrightarrow> reraise_wrapper klass message trap ignore func args w = Some (Raise e, w'))
   \<and> (func args w = Some (Raise e, w') \<and> issubclass (exn_cls e) Exception
      \<longrightarrow> reraise_wrapper default_klass default_message default_trap default_ignore func args w
            = Some (Raise (Exn BaleenError (exn_str e) (Some e)), w'))"
  by (simp add: reraise_wrapper_def default_trap_def default_ignore_def default_klass_def
      default_message_def set_original_def new_exn_def message_or_def)

theorem reraise_untrapped_unchanged_witness:
  "raises (Exn KeyError ''k'' None) () world0 = Some (Raise (Exn KeyError ''k'' None), world0)
   \<and> \<not> isinstance (Exn KeyError ''k'' None) (Class ValueError)
   \<and> \<not> isinstance (Exn KeyError ''k'' None) (Tuple [])
   \<and> issubclass (exn_cls (Exn KeyError ''k'' None)) Exception
   \<and> reraise_wrapper BaleenError None (Class ValueError) (Tuple [])
        (raises (Exn KeyError ''k'' None)) () world0
       = Some (Raise (Exn KeyError ''k'' None), world0)
   \<and> reraise_wrapper default_klass default_message default_trap default_ignore
        (raises (Exn KeyError ''k'' None)) () world0
       = Some (Raise (Exn BaleenError ''k'' (Some (Exn KeyError ''k'' None))), world0)"
proof -
  let ?e = "Exn KeyError ''k'' None"
  have a: "raises ?e () world0 = Some (Raise ?e, world0)" by (simp add: raises_def)
  have b: "\<not> isinstance ?e (Class ValueError)"
    by (simp add: KeyError_def ValueError_def LookupError_def Exception_def BaseException_def
        object_cls_def)
  have c: "\<not> isinstance ?e (Tuple [])" by simp
  have d: "issubclass (exn_cls ?e) Exception"
    by (simp add: KeyError_def LookupError_def Exception_def)
  from reraise_untrapped_unchanged [where func = "raises ?e" and args = "()" and w = world0
      and w' = world0 and e = ?e and trap = "Class ValueError" and ignore = "Tuple []"
      and klass = BaleenError and message = None] a b c d
  show ?thesis by simp
qed

subsection \<open>Timing\<close>

text \<open>
  C8. When the callable returns, the wrapper returns a pair: first what the callable
  returned for the same arguments, then the timer, whose elapsed time is the time that
  passed during the call and is not negative, the clock not having run backwards
  meanwhile.
\<close>

theorem timer_result:
  assumes "func args w = Some (Return r, w')" and "clock w \<le> clock w'"
  shows "\<exists>t. timer_wrapper func args w = Some (Return (r, t), w')
            \<and> 0 \<le> elapsed t \<and> elapsed t = clock w' - clock w"
  using assms by (simp add: timer_wrapper_def timer_enter_def timer_exit_def Timer_def)

theorem timer_result_witness:
  "sleeps 2 () world0 = Some (Return 2, world0\<lparr>clock := 2\<rparr>)
   \<and> clock world0 \<le> clock (world0\<lparr>clock := 2\<rparr>)
   \<and> (\<exists>t. timer_wrapper (sleeps 2) () world0 = Some (Return (2, t), world0\<lparr>clock := 2\<rparr>)
         \<and> 0 \<le> elapsed t \<and> elapsed t = 2)"
proof -
  have a: "sleeps 2 () world0 = Some (Return 2, world0\<lparr>clock := 2\<rparr>)"
    by (simp add: sleeps_def performs_def world0_def)
  have b: "clock world0 \<le> clock (world0\<lparr>clock := 2\<rparr>)"
    by (simp add: world0_def)
  from timer_result [where func = "sleeps 2" and args = "()" and w = world0
      and w' = "world0\<lparr>clock := 2\<rparr>" and r = 2] a b
  show ?thesis by (simp add: world0_def)
qed

subsection \<open>Memoization\<close>

text \<open>
  C6. Once a read of the accessor has returned a value, any number of further reads on
  the instance, one after the other, return that same value and leave the instance as it
  is, the count of invocations included: the computation does not run again. The read
  that found the slot unset ran the computation exactly once.
\<close>

theorem memoized_once:
  assumes "fget_memoized n fget self = Some (Return v, self1)"
  shows "reads k n fget self1 = Some (replicate k (Return v), self1)
         \<and> (\<not> hasattr self (attr_name n) \<longrightarrow> fget_calls self1 = Suc (fget_calls self))"
  using assms reads_cached [OF fget_memoized_stores [OF assms]] fget_memoized_counts [OF assms]
  by simp

theorem memoized_once_witness:
  "fget_memoized ''x'' answer obj0
     = Some (Return 42, \<lparr>attrs = [''_x'' \<mapsto> 42], fget_calls = 1\<rparr>)
   \<and> \<not> hasattr obj0 (attr_name ''x'')
   \<and> reads 3 ''x'' answer \<lparr>attrs = [''_x'' \<mapsto> 42], fget_calls = 1\<rparr>
       = Some ([Return 42, Return 42, Return 42], \<lparr>attrs = [''_x'' \<mapsto> 42], fget_calls = 1\<rparr>)
   \<and> fget_calls \<lparr>attrs = [''_x'' \<mapsto> 42::nat], fget_calls = 1\<rparr> = Suc (fget_calls obj0)"
proof -
  have a: "fget_memoized ''x'' answer obj0
             = Some (Return 42, \<lparr>attrs = [''_x'' \<mapsto> 42], fget_calls = 1\<rparr>)"
    by (simp add: fget_memoized_def hasattr_def attr_name_def obj0_def invoke_def answer_def
        setattr_def getattr_def)
  have b: "\<not> hasattr obj0 (attr_name ''x'')"
    by (simp add: hasattr_def obj0_def)
  from memoized_once [OF a, of 3] a b show ?thesis
    by (simp add: numeral_3_eq_3)
qed

text \<open>
  C7. On a first access (the slot is unset) whose computation raises, without having
  assigned the slot itself, the exception reaches the caller, the wrapper stores nothing
  (the instance is as the computation left it, and the slot is still unset), and the next
  read runs the computation again and gives what it gives.
\<close>

theorem memoized_failure_not_stored:
  assumes "\<not> hasattr self (attr_name n)"
    and "fget (attrs self) = Some (Raise e, a)"
    and "a (attr_name n) = None"
  shows "\<exists>self'. fget_memoized n fget self = Some (Raise e, self')
           \<and> \<not> hasattr self' (attr_name n)
           \<and> attrs self' = a
           \<and> fget_calls self' = Suc (fget_calls self)
           \<and> (\<forall>out a2. fget a = Some (out, a2) \<longrightarrow>
                 (\<exists>self2. fget_memoized n fget self' = Some (out, self2)
                    \<and> fget_calls self2 = Suc (Suc (fget_calls self))))"
  using assms
  by (auto simp: fget_memoized_def invoke_def hasattr_def setattr_def getattr_def Let_def
      split: outcome.splits)

theorem memoized_failure_not_stored_witness:
  "\<not> hasattr obj0 (attr_name ''x'')
   \<and> flaky (attrs obj0) = Some (Raise (Exn ValueError ''first'' None), [''tries'' \<mapsto> 1])
   \<and> [''tries'' \<mapsto> 1::nat] (attr_name ''x'') = None
   \<and> fget_memoized ''x'' flaky obj0
        = Some (Raise (Exn ValueError ''first'' None),
                \<lparr>attrs = [''tries'' \<mapsto> 1], fget_calls = 1\<rparr>)
   \<and> (\<exists>self2. fget_memoized ''x'' flaky \<lparr>attrs = [''tries'' \<mapsto> 1], fget_calls = 1\<rparr>
                  = Some (Return 42, self2)
         \<and> fget_calls self2 = 2)"
proof -
  have a: "\<not> hasattr obj0 (attr_name ''x'')"
    by (simp add: hasattr_def obj0_def)
  have b: "flaky (attrs obj0) = Some (Raise (Exn ValueError ''first'' None), [''tries'' \<mapsto> 1])"
    by (simp add: flaky_def obj0_def)
  have c: "[''tries'' \<mapsto> 1::nat] (attr_name ''x'') = None"
    by (simp add: attr_name_def)
  have d: "flaky [''tries'' \<mapsto> 1] = Some (Return 42, [''tries'' \<mapsto> 1])"
    by (simp add: flaky_def)
  from memoized_failure_not_stored [where self = obj0 and n = "''x''" and fget = flaky
      and e = "Exn ValueError ''first'' None" and a = "[''tries'' \<mapsto> 1]"] a b c
  obtain self' where
    r: "fget_memoized ''x'' flaky obj0 = Some (Raise (Exn ValueError ''first'' None), self')"
    and s: "attrs self' = [''tries'' \<mapsto> 1]" "fget_calls self' = Suc (fget_calls obj0)"
    and t: "\<forall>out a2. flaky [''tries'' \<mapsto> 1] = Some (out, a2) \<longrightarrow>
                 (\<exists>self2. fget_memoized ''x'' flaky self' = Some (out, self2)
                    \<and> fget_calls self2 = Suc (Suc (fget_calls obj0)))"
    by blast
  from s have self': "self' = \<lparr>attrs = [''tries'' \<mapsto> 1], fget_calls = 1\<rparr>"
    by (cases self') (simp add: obj0_def)
  from t d have "\<exists>self2. fget_memoized ''x'' flaky self' = Some (Return 42, self2)
                    \<and> fget_calls self2 = Suc (Suc (fget_calls obj0))"
    by blast
  with a b c r self' show ?thesis by (simp add: obj0_def numeral_2_eq_2)
qed

text \<open>
  C10. The slot is the attribute named by an underscore followed by the getter's name.
  When the instance has that attribute, however it came to have it, a read returns its
  value and leaves the instance as it is, so the computation does not run. Once the
  attribute is deleted, the next read runs the computation and stores what it returns.
\<close>

theorem memoized_slot_presence:
  "attr_name n = CHR ''_'' # n
   \<and> (attrs self (attr_name n) = Some v \<longrightarrow> fget_memoized n fget self = Some (Return v, self))
   \<and> (fget (attrs (delattr self (attr_name n))) = Some (Return v', a) \<longrightarrow>
        fget_memoized n fget (delattr self (attr_name n))
          = Some (Return v', \<lparr>attrs = a(attr_name n \<mapsto> v'), fget_calls = Suc (fget_calls self)\<rparr>))"
  by (simp add: attr_name_def fget_memoized_def hasattr_def getattr_def delattr_def invoke_def
      setattr_def)

theorem memoized_slot_presence_witness:
  "attr_name ''x'' = ''_x''
   \<and> attrs \<lparr>attrs = [''_x'' \<mapsto> 7::nat], fget_calls = 0\<rparr> (attr_name ''x'') = Some 7
   \<and> fget_memoized ''x'' answer \<lparr>attrs = [''_x'' \<mapsto> 7], fget_calls = 0\<rparr>
       = Some (Return 7, \<lparr>attrs = [''_x'' \<mapsto> 7], fget_calls = 0\<rparr>)
   \<and> answer (attrs (delattr \<lparr>attrs = [''_x'' \<mapsto> 7], fget_calls = 0\<rparr> (attr_name ''x'')))
       = Some (Return 42, Map.empty)
   \<and> fget_memoized ''x'' answer (delattr \<lparr>attrs = [''_x'' \<mapsto> 7], fget_calls = 0\<rparr> (attr_name ''x''))
       = Some (Return 42, \<lparr>attrs = [''_x'' \<mapsto> 42], fget_calls = 1\<rparr>)"
proof -
  let ?p = "\<lparr>attrs = [''_x'' \<mapsto> 7::nat], fget_calls = 0\<rparr>"
  have a: "attrs ?p (attr_name ''x'') = Some 7"
    by (simp add: attr_name_def)
  have b: "answer (attrs (delattr ?p (attr_name ''x''))) = Some (Return 42, Map.empty)"
    by (simp add: answer_def delattr_def attr_name_def)
  from memoized_slot_presence [where n = "''x''" and self = ?p and v = 7 and fget = answer
      and v' = 42 and a = Map.empty] a b
  show ?thesis by (simp add: attr_name_def)
qed

end
